theory Spec2Isabelle
  imports Main
begin

section \<open>JavaScript values and objects\<close>

text \<open>
  Message payloads are untyped in the source (\<^verbatim>\<open>unknown\<close>). They are modelled as a
  JSON-like value with the extra value \<^verbatim>\<open>undefined\<close>, because the source tests
  \<^verbatim>\<open>params !== undefined\<close> and the truthiness of \<^verbatim>\<open>this.data\<close>. Numbers are
  integers here: the code only compares and copies them. An object is an association
  list; a key is present (\<^verbatim>\<open>k in o\<close>) when the list has an entry for it, whatever
  the value of the entry.
\<close>

datatype json =
    JUndefined
  | JNull
  | JBool bool
  | JNum int
  | JStr string
  | JArr "json list"
  | JObj "(string \<times> json) list"

type_synonym obj = "(string \<times> json) list"

definition has_key :: "string \<Rightarrow> obj \<Rightarrow> bool" where
  "has_key k m = (map_of m k \<noteq> None)"

definition get_field :: "obj \<Rightarrow> string \<Rightarrow> json" where
  "get_field m k = (case map_of m k of None \<Rightarrow> JUndefined | Some v \<Rightarrow> v)"

text \<open>\<^verbatim>\<open>if (v)\<close>: JavaScript truthiness.\<close>

fun truthy :: "json \<Rightarrow> bool" where
  "truthy JUndefined = False"
| "truthy JNull = False"
| "truthy (JBool b) = b"
| "truthy (JNum n) = (n \<noteq> 0)"
| "truthy (JStr s) = (s \<noteq> [])"
| "truthy (JArr xs) = True"
| "truthy (JObj fs) = True"

text \<open>\<^verbatim>\<open>v ?? null\<close>.\<close>

fun nullish :: "json \<Rightarrow> json" where
  "nullish JUndefined = JNull"
| "nullish v = v"

text \<open>
  \<^verbatim>\<open>params && typeof params === 'object' && k in params\<close>, the parameter test of the
  server's handlers. An array is an object without the named key.
\<close>

fun param_has :: "json \<Rightarrow> string \<Rightarrow> bool" where
  "param_has (JObj fs) k = has_key k fs"
| "param_has v k = False"

fun param_get :: "json \<Rightarrow> string \<Rightarrow> json" where
  "param_get (JObj fs) k = get_field fs k"
| "param_get v k = JUndefined"

section \<open>Errors (core/errors.ts)\<close>

record McpError =
  code :: int
  message :: string
  data :: json

definition toJsonRpcError :: "McpError \<Rightarrow> obj" where
  "toJsonRpcError e =
     [(''code'', JNum (code e)), (''message'', JStr (message e))]
     @ (if truthy (data e) then [(''data'', data e)] else [])"

definition ParseError :: "string \<Rightarrow> json \<Rightarrow> McpError" where
  "ParseError msg d = \<lparr>code = -32700, message = msg, data = d\<rparr>"

definition InvalidRequestError :: "string \<Rightarrow> json \<Rightarrow> McpError" where
  "InvalidRequestError msg d = \<lparr>code = -32600, message = msg, data = d\<rparr>"

definition MethodNotFoundError :: "string \<Rightarrow> json \<Rightarrow> McpError" where
  "MethodNotFoundError method d =
     \<lparr>code = -32601, message = ''Method not found: '' @ method, data = d\<rparr>"

definition InvalidParamsError :: "string \<Rightarrow> json \<Rightarrow> McpError" where
  "InvalidParamsError msg d = \<lparr>code = -32602, message = msg, data = d\<rparr>"

definition InternalError :: "string \<Rightarrow> json \<Rightarrow> McpError" where
  "InternalError msg d = \<lparr>code = -32603, message = msg, data = d\<rparr>"

definition CapabilityNotSupportedError :: "string \<Rightarrow> json \<Rightarrow> McpError" where
  "CapabilityNotSupportedError capability d =
     \<lparr>code = -32004, message = ''Capability not supported: '' @ capability, data = d\<rparr>"

text \<open>
  What a \<^verbatim>\<open>catch\<close> clause can receive. \<open>ZodError\<close> and \<open>OtherError\<close> carry the
  text that \<^verbatim>\<open>error instanceof Error ? error.message : String(error)\<close> yields; the
  wording of the validation library's issue list is not modelled.
\<close>

datatype thrown =
    ZodError string
  | McpErr McpError
  | OtherError string

fun describe :: "thrown \<Rightarrow> string" where
  "describe (ZodError msg) = msg"
| "describe (McpErr e) = message e"
| "describe (OtherError msg) = msg"

text \<open>The validation error object itself, as it is passed on as \<^verbatim>\<open>data\<close>.\<close>

definition zod_object :: "string \<Rightarrow> json" where
  "zod_object msg = JObj [(''name'', JStr ''ZodError''), (''message'', JStr msg)]"

text \<open>The outcome of awaiting a handler: a value or a thrown error.\<close>

datatype hresult = Returns json | Throws thrown

section \<open>Method router: logging and sampling (core/server.ts)\<close>

text \<open>
  A provider is an external collaborator; it is a function from its arguments to its
  outcome. An unset provider is \<open>None\<close>.
\<close>

type_synonym LoggingProvider = "json \<Rightarrow> thrown option"
type_synonym SamplingProvider = "json list \<Rightarrow> hresult"

definition handleSetLogLevel :: "LoggingProvider option \<Rightarrow> json \<Rightarrow> hresult" where
  "handleSetLogLevel loggingProvider params =
     (case loggingProvider of
        None \<Rightarrow> Throws (McpErr (InvalidParamsError ''Logging not supported'' JUndefined))
      | Some setLogLevel \<Rightarrow>
          if \<not> param_has params ''level''
          then Throws (McpErr (InvalidParamsError ''Missing required parameter: level'' JUndefined))
          else (case setLogLevel (param_get params ''level'') of
                  Some e \<Rightarrow> Throws e
                | None \<Rightarrow> Returns JUndefined))"

definition handleCreateMessage :: "SamplingProvider option \<Rightarrow> json \<Rightarrow> hresult" where
  "handleCreateMessage samplingProvider params =
     (case samplingProvider of
        None \<Rightarrow> Throws (McpErr (InvalidParamsError ''Sampling not supported'' JUndefined))
      | Some createMessage \<Rightarrow>
          if \<not> param_has params ''messages''
          then Throws (McpErr (InvalidParamsError ''Missing required parameter: messages'' JUndefined))
          else createMessage
                 (map (param_get params)
                    [''messages'', ''modelPreferences'', ''systemPrompt'', ''includeContext'',
                     ''temperature'', ''maxTokens'', ''stopSequences'', ''metadata'']))"

section \<open>Envelope schemas (core/types.ts)\<close>

fun is_string :: "json \<Rightarrow> bool" where
  "is_string (JStr s) = True"
| "is_string v = False"

fun is_number :: "json \<Rightarrow> bool" where
  "is_number (JNum n) = True"
| "is_number v = False"

fun is_object :: "json \<Rightarrow> bool" where
  "is_object (JObj fs) = True"
| "is_object v = False"

fun str_of :: "json \<Rightarrow> string" where
  "str_of (JStr s) = s"
| "str_of v = []"

fun num_of :: "json \<Rightarrow> int" where
  "num_of (JNum n) = n"
| "num_of v = 0"

text \<open>
  The parsed envelopes. A schema keeps the fields it names and nothing else; an absent
  optional field reads as \<^verbatim>\<open>undefined\<close>.
\<close>

record JsonRpcRequest =
  req_id :: json
  req_method :: string
  req_params :: json

record ErrorObject =
  err_code :: int
  err_message :: string
  err_data :: json

record JsonRpcResponse =
  res_id :: json
  res_result :: json
  res_error :: "ErrorObject option"

record JsonRpcNotification =
  ntf_method :: string
  ntf_params :: json

definition JsonRpcRequestSchema_parse :: "obj \<Rightarrow> thrown + JsonRpcRequest" where
  "JsonRpcRequestSchema_parse m =
     (if get_field m ''jsonrpc'' = JStr ''2.0''
         \<and> (is_string (get_field m ''id'') \<or> is_number (get_field m ''id''))
         \<and> is_string (get_field m ''method'')
      then Inr \<lparr>req_id = get_field m ''id'', req_method = str_of (get_field m ''method''),
                req_params = get_field m ''params''\<rparr>
      else Inl (ZodError ''invalid JSON-RPC request''))"

definition error_object_ok :: "json \<Rightarrow> bool" where
  "error_object_ok e =
     (case e of
        JUndefined \<Rightarrow> True
      | JObj fs \<Rightarrow> is_number (get_field fs ''code'') \<and> is_string (get_field fs ''message'')
      | _ \<Rightarrow> False)"

definition parse_error_object :: "json \<Rightarrow> ErrorObject option" where
  "parse_error_object e =
     (case e of
        JObj fs \<Rightarrow> Some \<lparr>err_code = num_of (get_field fs ''code''),
                         err_message = str_of (get_field fs ''message''),
                         err_data = get_field fs ''data''\<rparr>
      | _ \<Rightarrow> None)"

definition JsonRpcResponseSchema_parse :: "obj \<Rightarrow> thrown + JsonRpcResponse" where
  "JsonRpcResponseSchema_parse m =
     (if get_field m ''jsonrpc'' = JStr ''2.0''
         \<and> (is_string (get_field m ''id'') \<or> is_number (get_field m ''id'')
              \<or> get_field m ''id'' = JNull)
         \<and> error_object_ok (get_field m ''error'')
      then Inr \<lparr>res_id = get_field m ''id'', res_result = get_field m ''result'',
                res_error = parse_error_object (get_field m ''error'')\<rparr>
      else Inl (ZodError ''invalid JSON-RPC response''))"

definition JsonRpcNotificationSchema_parse :: "obj \<Rightarrow> thrown + JsonRpcNotification" where
  "JsonRpcNotificationSchema_parse m =
     (if get_field m ''jsonrpc'' = JStr ''2.0'' \<and> is_string (get_field m ''method'')
      then Inr \<lparr>ntf_method = str_of (get_field m ''method''),
                ntf_params = get_field m ''params''\<rparr>
      else Inl (ZodError ''invalid JSON-RPC notification''))"

section \<open>Protocol core (core/protocol.ts)\<close>

text \<open>
  The transport is an interface. Its model keeps the messages that \<^verbatim>\<open>send\<close> accepted,
  in order, and takes the outcome of each successive \<^verbatim>\<open>send\<close> from a script
  (\<open>None\<close>: accepted; \<open>Some e\<close>: the call fails with \<open>e\<close>); when the script is used
  up every send is accepted. Any pattern of send failures is one such script.
\<close>

record Transport =
  sentMessages :: "obj list"
  outcomes :: "thrown option list"

definition transport_send :: "obj \<Rightarrow> Transport \<Rightarrow> thrown option \<times> Transport" where
  "transport_send msg t =
     (case outcomes t of
        [] \<Rightarrow> (None, t\<lparr>sentMessages := sentMessages t @ [msg]\<rparr>)
      | None # rest \<Rightarrow> (None, t\<lparr>sentMessages := sentMessages t @ [msg], outcomes := rest\<rparr>)
      | Some e # rest \<Rightarrow> (Some e, t\<lparr>outcomes := rest\<rparr>))"

record McpServerOptions =
  name :: string
  version :: string
  capabilities :: "obj option"
  instructions :: "string option"

text \<open>
  The future returned by \<^verbatim>\<open>sendRequest\<close>. A pending entry holds the
  \<^verbatim>\<open>resolve\<close>/\<^verbatim>\<open>reject\<close> pair of one future: it is the index of that future in the
  list of all futures created so far.
\<close>

datatype future = FPending | FResolved json | FRejected thrown

type_synonym MessageHandler = "json \<Rightarrow> json \<Rightarrow> hresult"
type_synonym NotificationHandler = "json \<Rightarrow> thrown option"

record McpProtocol =
  messageId :: int
  pendingRequests :: "json \<rightharpoonup> nat"
  requestHandlers :: "string \<rightharpoonup> MessageHandler"
  notificationHandlers :: "string \<rightharpoonup> NotificationHandler"
  transport :: Transport
  options :: McpServerOptions
  futures :: "future list"
  console :: "(string \<times> thrown) list"

text \<open>Object property assignment and the spread \<^verbatim>\<open>{...a, ...b}\<close>.\<close>

fun set_prop :: "string \<Rightarrow> json \<Rightarrow> obj \<Rightarrow> obj" where
  "set_prop k v [] = [(k, v)]"
| "set_prop k v ((k', v') # rest) =
     (if k' = k then (k, v) # rest else (k', v') # set_prop k v rest)"

fun spread :: "obj \<Rightarrow> obj \<Rightarrow> obj" where
  "spread base [] = base"
| "spread base ((k, v) # rest) = spread (set_prop k v base) rest"

definition default_capabilities :: obj where
  "default_capabilities =
     [(''logging'', JObj []),
      (''prompts'', JObj [(''listChanged'', JBool True)]),
      (''resources'', JObj [(''subscribe'', JBool True), (''listChanged'', JBool True)]),
      (''tools'', JObj [(''listChanged'', JBool True)]),
      (''roots'', JObj [(''listChanged'', JBool True)])]"

text \<open>\<^verbatim>\<open>...this.options.capabilities\<close>: spreading \<^verbatim>\<open>undefined\<close> adds nothing.\<close>

definition overrides :: "McpServerOptions \<Rightarrow> obj" where
  "overrides opts = (case capabilities opts of None \<Rightarrow> [] | Some c \<Rightarrow> c)"

definition initialize_params_ok :: "json \<Rightarrow> bool" where
  "initialize_params_ok params =
     (case params of
        JObj p \<Rightarrow>
          is_string (get_field p ''protocolVersion'')
          \<and> is_object (get_field p ''capabilities'')
          \<and> (case get_field p ''clientInfo'' of
                JObj ci \<Rightarrow> is_string (get_field ci ''name'') \<and> is_string (get_field ci ''version'')
              | _ \<Rightarrow> False)
      | _ \<Rightarrow> False)"

definition handleInitialize :: "McpServerOptions \<Rightarrow> json \<Rightarrow> hresult" where
  "handleInitialize opts params =
     (if \<not> initialize_params_ok params
      then Throws (McpErr (InvalidRequestError ''Invalid initialize params''
                             (zod_object ''invalid initialize params'')))
      else Returns (JObj (spread
             [(''protocolVersion'', JStr ''2024-11-05''),
              (''capabilities'',
                 JObj (spread default_capabilities (overrides opts))),
              (''serverInfo'',
                 JObj [(''name'', JStr (name opts)), (''version'', JStr (version opts))])]
             (case instructions opts of
                None \<Rightarrow> []
              | Some i \<Rightarrow> if i \<noteq> [] then [(''instructions'', JStr i)] else []))))"

definition onRequest :: "string \<Rightarrow> MessageHandler \<Rightarrow> McpProtocol \<Rightarrow> McpProtocol" where
  "onRequest method handler s = s\<lparr>requestHandlers := (requestHandlers s)(method \<mapsto> handler)\<rparr>"

definition onNotification :: "string \<Rightarrow> NotificationHandler \<Rightarrow> McpProtocol \<Rightarrow> McpProtocol" where
  "onNotification method handler s =
     s\<lparr>notificationHandlers := (notificationHandlers s)(method \<mapsto> handler)\<rparr>"

text \<open>The constructor with \<^verbatim>\<open>setupCoreHandlers\<close>.\<close>

definition new_McpProtocol :: "Transport \<Rightarrow> McpServerOptions \<Rightarrow> McpProtocol" where
  "new_McpProtocol t opts =
     onNotification ''initialized'' (\<lambda>params. None)
       (onRequest ''initialize'' (\<lambda>params i. handleInitialize opts params)
          \<lparr>messageId = 0, pendingRequests = Map.empty, requestHandlers = Map.empty,
           notificationHandlers = Map.empty, transport = t, options = opts,
           futures = [], console = []\<rparr>)"

definition isRequest :: "obj \<Rightarrow> bool" where
  "isRequest m = (has_key ''id'' m \<and> has_key ''method'' m)"

definition isResponse :: "obj \<Rightarrow> bool" where
  "isResponse m = (has_key ''id'' m \<and> (has_key ''result'' m \<or> has_key ''error'' m))"

definition isNotification :: "obj \<Rightarrow> bool" where
  "isNotification m = (has_key ''method'' m \<and> \<not> has_key ''id'' m)"

definition send :: "obj \<Rightarrow> McpProtocol \<Rightarrow> thrown option \<times> McpProtocol" where
  "send msg s = (case transport_send msg (transport s) of (r, t) \<Rightarrow> (r, s\<lparr>transport := t\<rparr>))"

definition sendResponse :: "json \<Rightarrow> json \<Rightarrow> McpProtocol \<Rightarrow> thrown option \<times> McpProtocol" where
  "sendResponse i result s =
     send [(''jsonrpc'', JStr ''2.0''), (''id'', i), (''result'', result)] s"

definition sendErrorResponse :: "json \<Rightarrow> McpError \<Rightarrow> McpProtocol \<Rightarrow> thrown option \<times> McpProtocol" where
  "sendErrorResponse i error s =
     send [(''jsonrpc'', JStr ''2.0''), (''id'', nullish i),
           (''error'', JObj (toJsonRpcError error))] s"

text \<open>
  \<^verbatim>\<open>handleRequest\<close>. The \<^verbatim>\<open>try\<close> block covers the handler and the send of its
  result, so a failure of either reaches the \<^verbatim>\<open>catch\<close> clause; a failure of the send
  in the \<^verbatim>\<open>catch\<close> clause leaves the function.
\<close>

definition handleRequest :: "JsonRpcRequest \<Rightarrow> McpProtocol \<Rightarrow> thrown option \<times> McpProtocol" where
  "handleRequest request s =
     (case requestHandlers s (req_method request) of
        None \<Rightarrow>
          sendErrorResponse (req_id request)
            \<lparr>code = -32601, message = ''Method not found: '' @ req_method request,
             data = JUndefined\<rparr> s
      | Some handler \<Rightarrow>
          (case (case handler (req_params request) (req_id request) of
                   Returns result \<Rightarrow> sendResponse (req_id request) result s
                 | Throws e \<Rightarrow> (Some e, s)) of
             (None, s') \<Rightarrow> (None, s')
           | (Some (McpErr e), s') \<Rightarrow> sendErrorResponse (req_id request) e s'
           | (Some error, s') \<Rightarrow>
               sendErrorResponse (req_id request)
                 \<lparr>code = -32603, message = ''Internal error'', data = JStr (describe error)\<rparr>
                 s'))"

text \<open>Settling a future; a settled future stays as it is.\<close>

definition settle :: "nat \<Rightarrow> future \<Rightarrow> McpProtocol \<Rightarrow> McpProtocol" where
  "settle h v s =
     (if h < length (futures s) \<and> futures s ! h = FPending
      then s\<lparr>futures := (futures s)[h := v]\<rparr> else s)"

definition handleResponse :: "JsonRpcResponse \<Rightarrow> McpProtocol \<Rightarrow> McpProtocol" where
  "handleResponse response s =
     (case pendingRequests s (res_id response) of
        None \<Rightarrow> s
      | Some pending \<Rightarrow>
          (let s' = s\<lparr>pendingRequests := (pendingRequests s)(res_id response := None)\<rparr>
           in case res_error response of
                Some e \<Rightarrow>
                  settle pending
                    (FRejected (McpErr \<lparr>code = err_code e, message = err_message e,
                                        data = err_data e\<rparr>)) s'
              | None \<Rightarrow> settle pending (FResolved (res_result response)) s'))"

definition handleNotification :: "JsonRpcNotification \<Rightarrow> McpProtocol \<Rightarrow> McpProtocol" where
  "handleNotification notification s =
     (case notificationHandlers s (ntf_method notification) of
        None \<Rightarrow> s
      | Some handler \<Rightarrow>
          (case handler (ntf_params notification) of
             None \<Rightarrow> s
           | Some error \<Rightarrow>
               s\<lparr>console := console s
                    @ [(''Error handling notification '' @ ntf_method notification @ '':'',
                        error)]\<rparr>))"

definition processMessage :: "obj \<Rightarrow> McpProtocol \<Rightarrow> thrown option \<times> McpProtocol" where
  "processMessage m s =
     (if isRequest m then
        (case JsonRpcRequestSchema_parse m of
           Inl e \<Rightarrow> (Some e, s)
         | Inr request \<Rightarrow> handleRequest request s)
      else if isResponse m then
        (case JsonRpcResponseSchema_parse m of
           Inl e \<Rightarrow> (Some e, s)
         | Inr response \<Rightarrow> (None, handleResponse response s))
      else if isNotification m then
        (case JsonRpcNotificationSchema_parse m of
           Inl e \<Rightarrow> (Some e, s)
         | Inr notification \<Rightarrow> (None, handleNotification notification s))
      else (Some (McpErr (InvalidRequestError ''Invalid message format'' JUndefined)), s))"

definition message_id_or_null :: "obj \<Rightarrow> json" where
  "message_id_or_null m = (if has_key ''id'' m then get_field m ''id'' else JNull)"

definition handleMessageError :: "obj \<Rightarrow> thrown \<Rightarrow> McpProtocol \<Rightarrow> thrown option \<times> McpProtocol" where
  "handleMessageError m error s =
     (case error of
        ZodError z \<Rightarrow>
          sendErrorResponse JNull (ParseError ''Invalid JSON-RPC message'' (zod_object z)) s
      | McpErr e \<Rightarrow> sendErrorResponse (message_id_or_null m) e s
      | OtherError d \<Rightarrow>
          sendErrorResponse (message_id_or_null m)
            \<lparr>code = -32603, message = ''Internal error'', data = JStr d\<rparr> s)"

text \<open>
  \<^verbatim>\<open>handleMessage\<close>, the callback given to the transport. The first component is the
  error that leaves it, if any. One inbound message is processed to its end before the
  next event: handlers are functions of their arguments and do not call back into the
  protocol object.
\<close>

definition handleMessage :: "obj \<Rightarrow> McpProtocol \<Rightarrow> thrown option \<times> McpProtocol" where
  "handleMessage m s =
     (case processMessage m s of
        (None, s') \<Rightarrow> (None, s')
      | (Some error, s') \<Rightarrow> handleMessageError m error s')"

text \<open>
  \<^verbatim>\<open>sendRequest\<close> returns the future (its index) with the new state. The counter is a
  JavaScript number in the source; it is an unbounded integer here.
\<close>

definition sendRequest :: "string \<Rightarrow> json \<Rightarrow> McpProtocol \<Rightarrow> nat \<times> McpProtocol" where
  "sendRequest method params s =
     (let i = messageId s + 1;
          request = [(''jsonrpc'', JStr ''2.0''), (''id'', JNum i), (''method'', JStr method)]
                    @ (if params \<noteq> JUndefined then [(''params'', params)] else []);
          h = length (futures s);
          s1 = s\<lparr>messageId := i, futures := futures s @ [FPending],
                 pendingRequests := (pendingRequests s)(JNum i \<mapsto> h)\<rparr>
      in case send request s1 of
           (None, s2) \<Rightarrow> (h, s2)
         | (Some e, s2) \<Rightarrow> (h, settle h (FRejected e) s2))"

definition sendNotification :: "string \<Rightarrow> json \<Rightarrow> McpProtocol \<Rightarrow> thrown option \<times> McpProtocol" where
  "sendNotification method params s =
     send ([(''jsonrpc'', JStr ''2.0''), (''method'', JStr method)]
           @ (if params \<noteq> JUndefined then [(''params'', params)] else [])) s"

text \<open>What can happen to a protocol object, one event at a time.\<close>

datatype event =
    Receive obj
  | SendRequest string json
  | SendNotification string json
  | OnRequest string MessageHandler
  | OnNotification string NotificationHandler

fun step :: "event \<Rightarrow> McpProtocol \<Rightarrow> McpProtocol" where
  "step (Receive m) s = snd (handleMessage m s)"
| "step (SendRequest method params) s = snd (sendRequest method params s)"
| "step (SendNotification method params) s = snd (sendNotification method params s)"
| "step (OnRequest method handler) s = onRequest method handler s"
| "step (OnNotification method handler) s = onNotification method handler s"

fun run :: "event list \<Rightarrow> McpProtocol \<Rightarrow> McpProtocol" where
  "run [] s = s"
| "run (e # es) s = run es (step e s)"

text \<open>An inbound message that is handled as a Response to the request with number \<open>i\<close>.\<close>

fun answers :: "int \<Rightarrow> event \<Rightarrow> bool" where
  "answers i (Receive m) = (\<not> isRequest m \<and> isResponse m \<and> get_field m ''id'' = JNum i)"
| "answers i e = False"

text \<open>Every pending entry holds the callbacks of a future that exists.\<close>

definition handles_valid :: "McpProtocol \<Rightarrow> bool" where
  "handles_valid s = (\<forall>k h. pendingRequests s k = Some h \<longrightarrow> h < length (futures s))"

text \<open>The next \<^verbatim>\<open>send\<close> of the transport is accepted.\<close>

definition accepts_next :: "Transport \<Rightarrow> bool" where
  "accepts_next t = (case outcomes t of [] \<Rightarrow> True | r # rest \<Rightarrow> r = None)"

text \<open>
  The request numbered \<open>i\<close> is outstanding and its pending entry holds the callbacks
  of the future \<open>h\<close>, which no other entry holds.
\<close>

definition tracks :: "int \<Rightarrow> nat \<Rightarrow> McpProtocol \<Rightarrow> bool" where
  "tracks i h s =
     (pendingRequests s (JNum i) = Some h
      \<and> (\<forall>k. k \<noteq> JNum i \<longrightarrow> pendingRequests s k \<noteq> Some h)
      \<and> h < length (futures s) \<and> futures s ! h = FPending
      \<and> i \<le> messageId s \<and> handles_valid s)"

text \<open>
  The request numbered \<open>i\<close> keeps its pending entry although its future \<open>h\<close> was
  rejected with \<open>e\<close>.
\<close>

definition dangling :: "int \<Rightarrow> nat \<Rightarrow> thrown \<Rightarrow> McpProtocol \<Rightarrow> bool" where
  "dangling i h e s =
     (pendingRequests s (JNum i) = Some h \<and> i \<le> messageId s
      \<and> h < length (futures s) \<and> futures s ! h = FRejected e)"

text \<open>
  \<^verbatim>\<open>const serialized = JSON.stringify(message)\<close>, the first step of \<^verbatim>\<open>send\<close> in
  the three transports (transports/stdio.ts, transports/http.ts, lambda/transport.ts).
  The result is given as the value that the text denotes, which is what the peer decodes:
  a property whose value is \<^verbatim>\<open>undefined\<close> is left out, and \<^verbatim>\<open>undefined\<close> in an
  array becomes null.
\<close>

fun stringify :: "json \<Rightarrow> json"
  and stringify_fields :: "(string \<times> json) list \<Rightarrow> (string \<times> json) list"
  and stringify_items :: "json list \<Rightarrow> json list" where
  "stringify (JObj fs) = JObj (stringify_fields fs)"
| "stringify (JArr xs) = JArr (stringify_items xs)"
| "stringify JUndefined = JUndefined"
| "stringify JNull = JNull"
| "stringify (JBool b) = JBool b"
| "stringify (JNum n) = JNum n"
| "stringify (JStr s) = JStr s"
| "stringify_fields [] = []"
| "stringify_fields (p # rest) =
     (if snd p = JUndefined then stringify_fields rest
      else (fst p, stringify (snd p)) # stringify_fields rest)"
| "stringify_items [] = []"
| "stringify_items (x # xs) = (if x = JUndefined then JNull else stringify x) # stringify_items xs"

text \<open>The two ways in which \<^verbatim>\<open>processMessage\<close> rejects an inbound message.\<close>

definition validation_fails :: "obj \<Rightarrow> bool" where
  "validation_fails m =
     (if isRequest m then isl (JsonRpcRequestSchema_parse m)
      else if isResponse m then isl (JsonRpcResponseSchema_parse m)
      else if isNotification m then isl (JsonRpcNotificationSchema_parse m)
      else False)"

definition unclassified :: "obj \<Rightarrow> bool" where
  "unclassified m = (\<not> isRequest m \<and> \<not> isResponse m \<and> \<not> isNotification m)"

text \<open>The fixture of core/protocol.test.ts: a transport that accepts every send.\<close>

definition MockTransport :: Transport where
  "MockTransport = \<lparr>sentMessages = [], outcomes = []\<rparr>"

definition test_options :: McpServerOptions where
  "test_options =
     \<lparr>name = ''test-server'', version = ''1.0.0'', capabilities = None, instructions = None\<rparr>"

definition test_protocol :: McpProtocol where
  "test_protocol = new_McpProtocol MockTransport test_options"

definition thrown_code :: "hresult \<Rightarrow> int option" where
  "thrown_code r = (case r of Throws (McpErr e) \<Rightarrow> Some (code e) | _ \<Rightarrow> None)"

section \<open>Evaluation of concrete runs\<close>

lemmas run_defs =
  test_protocol_def MockTransport_def test_options_def new_McpProtocol_def onRequest_def
  onNotification_def handleMessage_def processMessage_def handleMessageError_def
  handleRequest_def handleResponse_def handleNotification_def sendRequest_def
  sendNotification_def sendResponse_def sendErrorResponse_def send_def transport_send_def
  settle_def isRequest_def isResponse_def isNotification_def has_key_def get_field_def
  JsonRpcRequestSchema_parse_def JsonRpcResponseSchema_parse_def
  JsonRpcNotificationSchema_parse_def error_object_ok_def parse_error_object_def
  toJsonRpcError_def message_id_or_null_def accepts_next_def Let_def

section \<open>The initialize handshake\<close>

lemma map_of_set_prop: "map_of (set_prop k v m) = (map_of m)(k \<mapsto> v)"
  by (induction m) auto

lemma map_of_spread:
  "distinct (map fst ov) \<Longrightarrow> map_of (spread base ov) = map_of base ++ map_of ov"
proof (induction ov arbitrary: base)
  case Nil
  then show ?case by simp
next
  case (Cons p ov)
  obtain k v where p: "p = (k, v)" by (cases p)
  from Cons.prems p have k: "k \<notin> fst ` set ov" and d: "distinct (map fst ov)" by auto
  from k have none: "map_of ov k = None" by (simp add: map_of_eq_None_iff)
  have "map_of (spread base (p # ov)) = map_of (set_prop k v base) ++ map_of ov"
    using Cons.IH [OF d] p by simp
  also have "\<dots> = map_of base ++ map_of (p # ov)"
    using none unfolding p by (auto simp: map_of_set_prop map_add_def fun_eq_iff split: option.splits)
  finally show ?case .
qed

text \<open>
  C8. For an \<^verbatim>\<open>initialize\<close> request whose params carry a \<^verbatim>\<open>protocolVersion\<close>
  string, a \<^verbatim>\<open>capabilities\<close> object and a \<^verbatim>\<open>clientInfo\<close> object with string
  \<^verbatim>\<open>name\<close> and \<^verbatim>\<open>version\<close>, the handler returns a result whose
  \<^verbatim>\<open>serverInfo\<close> is the configured name and version, whose \<^verbatim>\<open>protocolVersion\<close>
  is the fixed string, and whose \<^verbatim>\<open>capabilities\<close> are the built-in defaults
  overridden key by key by the configured capabilities (an object, so its keys are
  distinct).
\<close>

theorem initialize_result:
  assumes ok: "initialize_params_ok params"
    and dist: "distinct (map fst (overrides opts))"
  shows "\<exists>res caps.
           handleInitialize opts params = Returns (JObj res)
         \<and> get_field res ''serverInfo''
             = JObj [(''name'', JStr (name opts)), (''version'', JStr (version opts))]
         \<and> get_field res ''protocolVersion'' = JStr ''2024-11-05''
         \<and> get_field res ''capabilities'' = JObj caps
         \<and> map_of caps = map_of default_capabilities ++ map_of (overrides opts)"
  using ok dist
  by (auto simp: handleInitialize_def get_field_def map_of_spread map_of_set_prop split: option.splits)

text \<open>The test fixture's server with two capability overrides.\<close>

theorem initialize_result_witness:
  "\<exists>res caps.
     handleInitialize \<lparr>name = ''test-server'', version = ''1.0.0'',
                       capabilities = Some [(''tools'', JObj [(''listChanged'', JBool False)]),
                                            (''sampling'', JObj [])],
                       instructions = None\<rparr>
       (JObj [(''protocolVersion'', JStr ''2024-11-05''), (''capabilities'', JObj []),
              (''clientInfo'', JObj [(''name'', JStr ''test-client''), (''version'', JStr ''1.0.0'')])])
       = Returns (JObj res)
   \<and> get_field res ''serverInfo'' = JObj [(''name'', JStr ''test-server''), (''version'', JStr ''1.0.0'')]
   \<and> get_field res ''protocolVersion'' = JStr ''2024-11-05''
   \<and> get_field res ''capabilities'' = JObj caps
   \<and> map_of caps = map_of default_capabilities
        ++ map_of [(''tools'', JObj [(''listChanged'', JBool False)]), (''sampling'', JObj [])]"
proof -
  let ?opts = "\<lparr>name = ''test-server'', version = ''1.0.0'',
                 capabilities = Some [(''tools'', JObj [(''listChanged'', JBool False)]),
                                      (''sampling'', JObj [])],
                 instructions = None\<rparr>"
  let ?params = "JObj [(''protocolVersion'', JStr ''2024-11-05''), (''capabilities'', JObj []),
              (''clientInfo'', JObj [(''name'', JStr ''test-client''), (''version'', JStr ''1.0.0'')])]"
  have ok: "initialize_params_ok ?params"
    by (simp add: initialize_params_ok_def get_field_def)
  have d: "distinct (map fst (overrides ?opts))"
    by (simp add: overrides_def)
  show ?thesis
    using initialize_result [OF ok d] by (simp add: overrides_def)
qed

section \<open>Inbound requests, responses and notifications\<close>

lemma send_accepted:
  assumes "accepts_next (transport s)"
  shows "\<exists>t. send msg s = (None, s\<lparr>transport := t\<rparr>)
             \<and> sentMessages t = sentMessages (transport s) @ [msg]"
  using assms
  by (auto simp: send_def transport_send_def accepts_next_def split: list.splits option.splits)

lemma send_state:
  "\<exists>t. snd (send msg s) = s\<lparr>transport := t\<rparr>"
  by (auto simp: send_def transport_send_def split: list.splits option.splits prod.splits)

lemma nullish_string_or_number:
  "is_string x \<or> is_number x \<Longrightarrow> nullish x = x"
  by (cases x) auto

lemma request_parse_fields:
  assumes "JsonRpcRequestSchema_parse m = Inr request"
  shows "isRequest m" and "req_id request = get_field m ''id''"
    and "nullish (req_id request) = get_field m ''id''"
  using assms
  by (auto simp: JsonRpcRequestSchema_parse_def isRequest_def has_key_def get_field_def
                 nullish_string_or_number
           split: if_splits option.splits)

text \<open>
  What \<^verbatim>\<open>handleRequest\<close> hands to the transport. For a Request that passes the
  Request schema and whose method has a registered handler, it is one object, when the
  transport accepts it, with the id of the Request and exactly one of the keys
  \<^verbatim>\<open>result\<close> and \<^verbatim>\<open>error\<close>. The key \<^verbatim>\<open>result\<close> holds whatever the
  handler returned, \<^verbatim>\<open>undefined\<close> included, so this is a statement about the
  object in memory, not yet about the Response that the peer receives.
\<close>

theorem request_yields_one_response:
  assumes parse: "JsonRpcRequestSchema_parse m = Inr request"
    and handler: "requestHandlers s (req_method request) = Some handler"
    and acc: "accepts_next (transport s)"
  shows "fst (handleMessage m s) = None
       \<and> (\<exists>resp. sentMessages (transport (snd (handleMessage m s)))
                   = sentMessages (transport s) @ [resp]
                \<and> get_field resp ''id'' = get_field m ''id''
                \<and> (has_key ''result'' resp \<noteq> has_key ''error'' resp))"
proof -
  note flds = request_parse_fields [OF parse]
  have pm: "processMessage m s = handleRequest request s"
    using flds(1) parse by (simp add: processMessage_def)
  show ?thesis
  proof (cases "handler (req_params request) (req_id request)")
    case (Returns v)
    obtain t where t: "send [(''jsonrpc'', JStr ''2.0''), (''id'', req_id request), (''result'', v)] s
                         = (None, s\<lparr>transport := t\<rparr>)"
      "sentMessages t = sentMessages (transport s)
          @ [[(''jsonrpc'', JStr ''2.0''), (''id'', req_id request), (''result'', v)]]"
      using send_accepted [OF acc] by blast
    have "handleMessage m s = (None, s\<lparr>transport := t\<rparr>)"
      using pm handler Returns t(1)
      by (simp add: handleMessage_def handleRequest_def sendResponse_def)
    then show ?thesis using t(2) flds(2)
      by (simp add: get_field_def has_key_def)
  next
    case (Throws e)
    define err where "err = (case e of McpErr x \<Rightarrow> x
        | _ \<Rightarrow> \<lparr>code = -32603, message = ''Internal error'', data = JStr (describe e)\<rparr>)"
    let ?resp = "[(''jsonrpc'', JStr ''2.0''), (''id'', nullish (req_id request)),
                  (''error'', JObj (toJsonRpcError err))]"
    obtain t where t: "send ?resp s = (None, s\<lparr>transport := t\<rparr>)"
      "sentMessages t = sentMessages (transport s) @ [?resp]"
      using send_accepted [OF acc] by blast
    have "handleRequest request s = (None, s\<lparr>transport := t\<rparr>)"
      using handler Throws t(1)
      by (cases e) (simp_all add: handleRequest_def sendErrorResponse_def err_def)
    then have "handleMessage m s = (None, s\<lparr>transport := t\<rparr>)"
      using pm by (simp add: handleMessage_def)
    then show ?thesis using t(2) flds(3)
      by (simp add: get_field_def has_key_def)
  qed
qed

text \<open>
  The custom-handler test of core/protocol.test.ts.
\<close>

theorem request_yields_one_response_witness:
  "\<exists>resp. sentMessages (transport (snd (handleMessage
               [(''jsonrpc'', JStr ''2.0''), (''id'', JNum 2), (''method'', JStr ''custom/method''),
                (''params'', JObj [(''test'', JStr ''data'')])]
               (onRequest ''custom/method'' (\<lambda>params i. Returns (JObj [(''success'', JBool True)]))
                  test_protocol))))
            = [resp]
         \<and> get_field resp ''id'' = JNum 2
         \<and> (has_key ''result'' resp \<noteq> has_key ''error'' resp)"
proof -
  let ?m = "[(''jsonrpc'', JStr ''2.0''), (''id'', JNum 2), (''method'', JStr ''custom/method''),
             (''params'', JObj [(''test'', JStr ''data'')])]"
  let ?h = "\<lambda>(params::json) (i::json). Returns (JObj [(''success'', JBool True)])"
  let ?s = "onRequest ''custom/method'' ?h test_protocol"
  have parse: "JsonRpcRequestSchema_parse ?m
      = Inr \<lparr>req_id = JNum 2, req_method = ''custom/method'',
              req_params = JObj [(''test'', JStr ''data'')]\<rparr>"
    by (simp add: JsonRpcRequestSchema_parse_def get_field_def)
  have handler: "requestHandlers ?s
      (req_method \<lparr>req_id = JNum 2, req_method = ''custom/method'',
              req_params = JObj [(''test'', JStr ''data'')]\<rparr>) = Some ?h"
    by (simp add: onRequest_def)
  have acc: "accepts_next (transport ?s)" by (simp add: run_defs)
  have sent0: "sentMessages (transport ?s) = []" by (simp add: run_defs)
  from request_yields_one_response [OF parse handler acc]
  show ?thesis by (simp add: sent0 get_field_def)
qed

lemma stringify_string_or_number:
  "is_string x \<or> is_number x \<Longrightarrow> stringify x = x \<and> x \<noteq> JUndefined"
  by (cases x) auto

text \<open>
  The Response as the peer receives it. When the handler throws, or returns a value
  other than \<^verbatim>\<open>undefined\<close>, the serialized Response has the id of the Request and
  exactly one of \<^verbatim>\<open>result\<close> and \<^verbatim>\<open>error\<close>.
\<close>

lemma request_response_on_wire:
  assumes parse: "JsonRpcRequestSchema_parse m = Inr request"
    and handler: "requestHandlers s (req_method request) = Some handler"
    and acc: "accepts_next (transport s)"
    and defined: "handler (req_params request) (req_id request) \<noteq> Returns JUndefined"
  shows "\<exists>resp. sentMessages (transport (snd (handleMessage m s)))
                 = sentMessages (transport s) @ [resp]
              \<and> get_field (stringify_fields resp) ''id'' = get_field m ''id''
              \<and> (has_key ''result'' (stringify_fields resp)
                   \<noteq> has_key ''error'' (stringify_fields resp))"
proof -
  note flds = request_parse_fields [OF parse]
  have pm: "processMessage m s = handleRequest request s"
    using flds(1) parse by (simp add: processMessage_def)
  have "is_string (req_id request) \<or> is_number (req_id request)"
    using parse by (auto simp: JsonRpcRequestSchema_parse_def split: if_splits)
  note rid = stringify_string_or_number [OF this]
  show ?thesis
  proof (cases "handler (req_params request) (req_id request)")
    case (Returns v)
    with defined have v: "v \<noteq> JUndefined" by simp
    obtain t where t: "send [(''jsonrpc'', JStr ''2.0''), (''id'', req_id request), (''result'', v)] s
                         = (None, s\<lparr>transport := t\<rparr>)"
      "sentMessages t = sentMessages (transport s)
          @ [[(''jsonrpc'', JStr ''2.0''), (''id'', req_id request), (''result'', v)]]"
      using send_accepted [OF acc] by blast
    have "handleMessage m s = (None, s\<lparr>transport := t\<rparr>)"
      using pm handler Returns t(1)
      by (simp add: handleMessage_def handleRequest_def sendResponse_def)
    then show ?thesis using t(2) flds(2) rid v
      by (simp add: get_field_def has_key_def)
  next
    case (Throws e)
    define err where "err = (case e of McpErr x \<Rightarrow> x
        | _ \<Rightarrow> \<lparr>code = -32603, message = ''Internal error'', data = JStr (describe e)\<rparr>)"
    let ?resp = "[(''jsonrpc'', JStr ''2.0''), (''id'', nullish (req_id request)),
                  (''error'', JObj (toJsonRpcError err))]"
    obtain t where t: "send ?resp s = (None, s\<lparr>transport := t\<rparr>)"
      "sentMessages t = sentMessages (transport s) @ [?resp]"
      using send_accepted [OF acc] by blast
    have "handleRequest request s = (None, s\<lparr>transport := t\<rparr>)"
      using handler Throws t(1)
      by (cases e) (simp_all add: handleRequest_def sendErrorResponse_def err_def)
    then have "handleMessage m s = (None, s\<lparr>transport := t\<rparr>)"
      using pm by (simp add: handleMessage_def)
    then show ?thesis using t(2) flds(2,3) rid
      by (simp add: get_field_def has_key_def)
  qed
qed

text \<open>
  C2 at a failing input. The claim has every Request with a registered handler
  answered by a Response that contains exactly one of a result field and an error field.
  The handler of \<^verbatim>\<open>logging/setLevel\<close> with a logging provider returns
  \<^verbatim>\<open>undefined\<close> (as the subscribe and unsubscribe handlers do), so the object sent
  is \<^verbatim>\<open>{jsonrpc, id, result: undefined}\<close> and the Response that the transport
  serializes has neither a result field nor an error field: \<^verbatim>\<open>isResponse\<close> of the
  same protocol core does not take it for a Response.
\<close>

theorem void_handler_response_has_no_result:
  "sentMessages (transport (snd (handleMessage
      [(''jsonrpc'', JStr ''2.0''), (''id'', JNum 1), (''method'', JStr ''logging/setLevel''),
       (''params'', JObj [(''level'', JStr ''debug'')])]
      (onRequest ''logging/setLevel''
         (\<lambda>params i. handleSetLogLevel (Some (\<lambda>level. None)) params)
         test_protocol))))
   = [[(''jsonrpc'', JStr ''2.0''), (''id'', JNum 1), (''result'', JUndefined)]]
   \<and> map stringify_fields (sentMessages (transport (snd (handleMessage
      [(''jsonrpc'', JStr ''2.0''), (''id'', JNum 1), (''method'', JStr ''logging/setLevel''),
       (''params'', JObj [(''level'', JStr ''debug'')])]
      (onRequest ''logging/setLevel''
         (\<lambda>params i. handleSetLogLevel (Some (\<lambda>level. None)) params)
         test_protocol)))))
   = [[(''jsonrpc'', JStr ''2.0''), (''id'', JNum 1)]]
   \<and> unclassified [(''jsonrpc'', JStr ''2.0''), (''id'', JNum 1)]"
  by (simp add: run_defs handleSetLogLevel_def unclassified_def)

text \<open>
  C6. An inbound Response (classified as one, passing the Response schema) whose id has
  no pending entry changes nothing: no error leaves \<^verbatim>\<open>handleMessage\<close>, and the
  whole state, with the transport and the pending table, is as before.
\<close>

theorem unmatched_response_no_effect:
  assumes "\<not> isRequest m" and "isResponse m"
    and "JsonRpcResponseSchema_parse m = Inr response"
    and "pendingRequests s (res_id response) = None"
  shows "handleMessage m s = (None, s)"
  using assms by (simp add: handleMessage_def processMessage_def handleResponse_def)

text \<open>
  A Response with id 99 reaches a protocol object that has sent no request.
\<close>

theorem unmatched_response_no_effect_witness:
  "handleMessage [(''jsonrpc'', JStr ''2.0''), (''id'', JNum 99), (''result'', JStr ''late'')]
     test_protocol = (None, test_protocol)"
proof -
  let ?m = "[(''jsonrpc'', JStr ''2.0''), (''id'', JNum 99), (''result'', JStr ''late'')]"
  have cls: "\<not> isRequest ?m" "isResponse ?m"
    by (simp_all add: isRequest_def isResponse_def has_key_def)
  have valid: "JsonRpcResponseSchema_parse ?m
      = Inr \<lparr>res_id = JNum 99, res_result = JStr ''late'', res_error = None\<rparr>"
    by (simp add: JsonRpcResponseSchema_parse_def get_field_def error_object_ok_def
                  parse_error_object_def)
  have none: "pendingRequests test_protocol
      (res_id \<lparr>res_id = JNum 99, res_result = JStr ''late'', res_error = None\<rparr>) = None"
    by (simp add: run_defs)
  show ?thesis by (rule unmatched_response_no_effect [OF cls valid none])
qed

lemma isNotification_not_others:
  "isNotification m \<Longrightarrow> \<not> isRequest m \<and> \<not> isResponse m"
  by (simp add: isNotification_def isRequest_def isResponse_def)

text \<open>
  C9 (as the code has it). Processing an inbound Notification (a message with a method
  field and no id) that passes the Notification schema never calls the transport,
  whether or not a handler is registered and whether or not the handler fails; a
  handler failure adds one entry to the console log and nothing else changes.
\<close>

theorem notification_sends_nothing:
  assumes "isNotification m" and "JsonRpcNotificationSchema_parse m = Inr n"
  shows "fst (handleMessage m s) = None
       \<and> transport (snd (handleMessage m s)) = transport s
       \<and> pendingRequests (snd (handleMessage m s)) = pendingRequests s
       \<and> futures (snd (handleMessage m s)) = futures s
       \<and> console (snd (handleMessage m s)) = console s
           @ (case notificationHandlers s (ntf_method n) of
                None \<Rightarrow> []
              | Some handler \<Rightarrow>
                  (case handler (ntf_params n) of
                     None \<Rightarrow> []
                   | Some e \<Rightarrow> [(''Error handling notification '' @ ntf_method n @ '':'', e)]))"
  using assms isNotification_not_others [of m]
  by (simp add: handleMessage_def processMessage_def handleNotification_def split: option.splits)

text \<open>
  A notification whose registered handler fails.
\<close>

theorem notification_sends_nothing_witness:
  "fst (handleMessage
          [(''jsonrpc'', JStr ''2.0''), (''method'', JStr ''test/notification''),
           (''params'', JObj [(''data'', JStr ''test'')])]
          (onNotification ''test/notification'' (\<lambda>params. Some (OtherError ''boom''))
             test_protocol)) = None
   \<and> transport (snd (handleMessage
          [(''jsonrpc'', JStr ''2.0''), (''method'', JStr ''test/notification''),
           (''params'', JObj [(''data'', JStr ''test'')])]
          (onNotification ''test/notification'' (\<lambda>params. Some (OtherError ''boom''))
             test_protocol))) = MockTransport
   \<and> console (snd (handleMessage
          [(''jsonrpc'', JStr ''2.0''), (''method'', JStr ''test/notification''),
           (''params'', JObj [(''data'', JStr ''test'')])]
          (onNotification ''test/notification'' (\<lambda>params. Some (OtherError ''boom''))
             test_protocol)))
       = [(''Error handling notification test/notification:'', OtherError ''boom'')]"
proof -
  let ?m = "[(''jsonrpc'', JStr ''2.0''), (''method'', JStr ''test/notification''),
           (''params'', JObj [(''data'', JStr ''test'')])]"
  let ?s = "onNotification ''test/notification'' (\<lambda>params. Some (OtherError ''boom''))
             test_protocol"
  have cls: "isNotification ?m" by (simp add: isNotification_def has_key_def)
  have valid: "JsonRpcNotificationSchema_parse ?m
      = Inr \<lparr>ntf_method = ''test/notification'', ntf_params = JObj [(''data'', JStr ''test'')]\<rparr>"
    by (simp add: JsonRpcNotificationSchema_parse_def get_field_def)
  have st: "transport ?s = MockTransport" "console ?s = []"
    "notificationHandlers ?s ''test/notification'' = Some (\<lambda>params. Some (OtherError ''boom''))"
    by (simp_all add: onNotification_def test_protocol_def new_McpProtocol_def onRequest_def)
  from notification_sends_nothing [OF cls valid, of ?s]
  show ?thesis by (simp add: st)
qed

text \<open>
  C9 (as claimed) fails: a message with a method field and no id, without the
  protocol-version marker, for whose method a handler is registered, is answered with
  a Parse-Error Response.
\<close>

theorem notification_without_marker_is_answered:
  "isNotification [(''method'', JStr ''test/notification''),
                   (''params'', JObj [(''data'', JStr ''test'')])]
   \<and> sentMessages (transport (snd (handleMessage
        [(''method'', JStr ''test/notification''), (''params'', JObj [(''data'', JStr ''test'')])]
        (onNotification ''test/notification'' (\<lambda>params. None) test_protocol))))
     = [[(''jsonrpc'', JStr ''2.0''), (''id'', JNull),
         (''error'', JObj [(''code'', JNum (-32700)),
                           (''message'', JStr ''Invalid JSON-RPC message''),
                           (''data'', zod_object ''invalid JSON-RPC notification'')])]]"
  by (simp add: run_defs ParseError_def zod_object_def)

section \<open>An outstanding request keeps its pending entry\<close>

lemma sendErrorResponse_state:
  "\<exists>t. snd (sendErrorResponse i e s) = s\<lparr>transport := t\<rparr>"
  unfolding sendErrorResponse_def by (rule send_state)

lemma handleRequest_state:
  "\<exists>t. snd (handleRequest request s) = s\<lparr>transport := t\<rparr>"
proof (cases "requestHandlers s (req_method request)")
  case None
  then show ?thesis using sendErrorResponse_state by (simp add: handleRequest_def)
next
  case (Some handler)
  show ?thesis
  proof (cases "handler (req_params request) (req_id request)")
    case (Returns v)
    obtain r t where st: "send [(''jsonrpc'', JStr ''2.0''), (''id'', req_id request), (''result'', v)] s
         = (r, s\<lparr>transport := t\<rparr>)"
      using send_state [of "[(''jsonrpc'', JStr ''2.0''), (''id'', req_id request), (''result'', v)]" s]
      by (metis prod.collapse)
    show ?thesis
    proof (cases r)
      case None
      then show ?thesis using Some Returns st
        by (auto simp: handleRequest_def sendResponse_def)
    next
      case (Some e)
      obtain t' where "snd (sendErrorResponse (req_id request)
            (case e of McpErr x \<Rightarrow> x
             | _ \<Rightarrow> \<lparr>code = -32603, message = ''Internal error'', data = JStr (describe e)\<rparr>)
            (s\<lparr>transport := t\<rparr>)) = s\<lparr>transport := t\<rparr>\<lparr>transport := t'\<rparr>"
        using sendErrorResponse_state by blast
      then show ?thesis using \<open>requestHandlers s (req_method request) = Some handler\<close> Returns st Some
        by (cases e) (auto simp: handleRequest_def sendResponse_def)
    qed
  next
    case (Throws e)
    obtain t' where "snd (sendErrorResponse (req_id request)
            (case e of McpErr x \<Rightarrow> x
             | _ \<Rightarrow> \<lparr>code = -32603, message = ''Internal error'', data = JStr (describe e)\<rparr>)
            s) = s\<lparr>transport := t'\<rparr>"
      using sendErrorResponse_state by blast
    then show ?thesis using Some Throws
      by (cases e) (auto simp: handleRequest_def)
  qed
qed

lemma handleMessageError_state:
  "\<exists>t. snd (handleMessageError m e s) = s\<lparr>transport := t\<rparr>"
  using sendErrorResponse_state
  by (cases e) (simp_all add: handleMessageError_def)

lemma handleNotification_state:
  "\<exists>c. handleNotification n s = s\<lparr>console := c\<rparr>"
proof (cases "notificationHandlers s (ntf_method n)")
  case None
  have "s = s\<lparr>console := console s\<rparr>" by simp
  with None show ?thesis by (metis handleNotification_def option.simps(4))
next
  case (Some handler)
  show ?thesis
  proof (cases "handler (ntf_params n)")
    case None
    have "s = s\<lparr>console := console s\<rparr>" by simp
    with None Some show ?thesis unfolding handleNotification_def by (metis option.simps(4,5))
  next
    case (Some e)
    with \<open>notificationHandlers s (ntf_method n) = Some handler\<close> show ?thesis
      by (auto simp: handleNotification_def)
  qed
qed

lemma tracks_transport [simp]: "tracks i h (s\<lparr>transport := t\<rparr>) = tracks i h s"
  by (simp add: tracks_def handles_valid_def)

lemma tracks_console [simp]: "tracks i h (s\<lparr>console := c\<rparr>) = tracks i h s"
  by (simp add: tracks_def handles_valid_def)

lemma tracks_requestHandlers [simp]: "tracks i h (s\<lparr>requestHandlers := r\<rparr>) = tracks i h s"
  by (simp add: tracks_def handles_valid_def)

lemma tracks_notificationHandlers [simp]:
  "tracks i h (s\<lparr>notificationHandlers := r\<rparr>) = tracks i h s"
  by (simp add: tracks_def handles_valid_def)

lemma tracks_handleResponse:
  assumes tr: "tracks i h s" and other: "res_id response \<noteq> JNum i"
  shows "tracks i h (handleResponse response s)"
proof (cases "pendingRequests s (res_id response)")
  case None
  then show ?thesis using tr by (simp add: handleResponse_def)
next
  case (Some h')
  from tr other Some have ne: "h' \<noteq> h" by (auto simp: tracks_def)
  from tr Some have lt: "h' < length (futures s)" by (auto simp: tracks_def handles_valid_def)
  have "tracks i h (settle h' v (s\<lparr>pendingRequests := (pendingRequests s)(res_id response := None)\<rparr>))"
    for v
    using tr other ne lt
    by (auto simp: tracks_def handles_valid_def settle_def split: if_splits)
  then show ?thesis using Some
    by (simp add: handleResponse_def Let_def split: option.splits)
qed

lemma response_parse_id:
  "JsonRpcResponseSchema_parse m = Inr response \<Longrightarrow> res_id response = get_field m ''id''"
  by (auto simp: JsonRpcResponseSchema_parse_def split: if_splits)

lemma tracks_processMessage:
  assumes tr: "tracks i h s" and na: "\<not> answers i (Receive m)"
  shows "tracks i h (snd (processMessage m s))"
proof -
  consider (req) "isRequest m" | (res) "\<not> isRequest m" "isResponse m"
    | (ntf) "\<not> isRequest m" "\<not> isResponse m" "isNotification m"
    | (bad) "\<not> isRequest m" "\<not> isResponse m" "\<not> isNotification m" by blast
  then show ?thesis
  proof cases
    case req
    show ?thesis
    proof (cases "JsonRpcRequestSchema_parse m")
      case (Inl e)
      then show ?thesis using req tr by (simp add: processMessage_def)
    next
      case (Inr request)
      obtain t where "snd (handleRequest request s) = s\<lparr>transport := t\<rparr>"
        using handleRequest_state by blast
      then show ?thesis using req Inr tr by (simp add: processMessage_def)
    qed
  next
    case res
    show ?thesis
    proof (cases "JsonRpcResponseSchema_parse m")
      case (Inl e)
      then show ?thesis using res tr by (simp add: processMessage_def)
    next
      case (Inr response)
      from na res have "get_field m ''id'' \<noteq> JNum i" by simp
      with response_parse_id [OF Inr] have "res_id response \<noteq> JNum i" by simp
      from tracks_handleResponse [OF tr this] show ?thesis
        using res Inr by (simp add: processMessage_def)
    qed
  next
    case ntf
    show ?thesis
    proof (cases "JsonRpcNotificationSchema_parse m")
      case (Inl e)
      then show ?thesis using ntf tr by (simp add: processMessage_def)
    next
      case (Inr n)
      obtain c where "handleNotification n s = s\<lparr>console := c\<rparr>"
        using handleNotification_state by blast
      then show ?thesis using ntf Inr tr by (simp add: processMessage_def)
    qed
  next
    case bad
    then show ?thesis using tr by (simp add: processMessage_def)
  qed
qed

lemma tracks_handleMessage:
  assumes tr: "tracks i h s" and na: "\<not> answers i (Receive m)"
  shows "tracks i h (snd (handleMessage m s))"
proof (cases "processMessage m s")
  case (Pair r s')
  with tracks_processMessage [OF tr na] have tr': "tracks i h s'" by simp
  show ?thesis
  proof (cases r)
    case None
    with Pair tr' show ?thesis by (simp add: handleMessage_def)
  next
    case (Some e)
    obtain t where "snd (handleMessageError m e s') = s'\<lparr>transport := t\<rparr>"
      using handleMessageError_state by blast
    with Pair Some tr' show ?thesis by (simp add: handleMessage_def)
  qed
qed

lemma tracks_sendRequest:
  assumes tr: "tracks i h s"
  shows "tracks i h (snd (sendRequest method params s))"
proof -
  let ?j = "messageId s + 1"
  let ?s1 = "s\<lparr>messageId := ?j, futures := futures s @ [FPending],
                pendingRequests := (pendingRequests s)(JNum ?j \<mapsto> length (futures s))\<rparr>"
  from tr have tr1: "tracks i h ?s1"
    by (auto simp: tracks_def handles_valid_def nth_append less_Suc_eq)
  let ?request = "[(''jsonrpc'', JStr ''2.0''), (''id'', JNum ?j), (''method'', JStr method)]
                    @ (if params \<noteq> JUndefined then [(''params'', params)] else [])"
  obtain r t where st: "send ?request ?s1 = (r, ?s1\<lparr>transport := t\<rparr>)"
    using send_state [of ?request ?s1] by (metis prod.collapse)
  have tr2: "tracks i h (?s1\<lparr>transport := t\<rparr>)" using tr1 by simp
  have ne: "length (futures s) \<noteq> h" using tr by (auto simp: tracks_def)
  have tr3: "tracks i h (settle (length (futures s)) v (?s1\<lparr>transport := t\<rparr>))" for v
    using tr2 ne by (auto simp: tracks_def handles_valid_def settle_def nth_append less_Suc_eq)
  show ?thesis
    using st tr2 tr3 by (cases r) (simp_all add: sendRequest_def Let_def)
qed

lemma tracks_sendNotification:
  assumes tr: "tracks i h s"
  shows "tracks i h (snd (sendNotification method params s))"
proof -
  obtain t where "snd (sendNotification method params s) = s\<lparr>transport := t\<rparr>"
    unfolding sendNotification_def using send_state by blast
  with tr show ?thesis by simp
qed

lemma tracks_step:
  assumes "tracks i h s" and "\<not> answers i ev"
  shows "tracks i h (step ev s)"
  using assms
  by (cases ev)
     (simp_all add: tracks_handleMessage tracks_sendRequest tracks_sendNotification
                    onRequest_def onNotification_def del: answers.simps)

lemma tracks_run:
  "tracks i h s \<Longrightarrow> \<forall>ev\<in>set evs. \<not> answers i ev \<Longrightarrow> tracks i h (run evs s)"
  by (induction evs arbitrary: s) (simp_all add: tracks_step)

lemma sendRequest_tracks:
  assumes hv: "handles_valid s" and acc: "accepts_next (transport s)"
  shows "tracks (messageId s + 1) (fst (sendRequest method params s))
           (snd (sendRequest method params s))"
  using assms
  by (auto simp: sendRequest_def Let_def send_def transport_send_def accepts_next_def
                 tracks_def handles_valid_def nth_append less_Suc_eq
           split: list.splits option.splits)

section \<open>A request whose send fails\<close>

lemma dangling_transport [simp]: "dangling i h e (s\<lparr>transport := t\<rparr>) = dangling i h e s"
  by (simp add: dangling_def)

lemma dangling_console [simp]: "dangling i h e (s\<lparr>console := c\<rparr>) = dangling i h e s"
  by (simp add: dangling_def)

lemma dangling_requestHandlers [simp]:
  "dangling i h e (s\<lparr>requestHandlers := r\<rparr>) = dangling i h e s"
  by (simp add: dangling_def)

lemma dangling_notificationHandlers [simp]:
  "dangling i h e (s\<lparr>notificationHandlers := r\<rparr>) = dangling i h e s"
  by (simp add: dangling_def)

lemma dangling_handleResponse:
  assumes "dangling i h e s" and "res_id response \<noteq> JNum i"
  shows "dangling i h e (handleResponse response s)"
  using assms
  by (auto simp: dangling_def handleResponse_def Let_def settle_def nth_list_update
           split: option.splits)

lemma dangling_processMessage:
  assumes dg: "dangling i h e s" and na: "\<not> answers i (Receive m)"
  shows "dangling i h e (snd (processMessage m s))"
proof -
  have req: "dangling i h e (snd (handleRequest request s))" for request
  proof -
    obtain t where "snd (handleRequest request s) = s\<lparr>transport := t\<rparr>"
      using handleRequest_state by blast
    with dg show ?thesis by simp
  qed
  have ntf: "dangling i h e (handleNotification n s)" for n
  proof -
    obtain c where "handleNotification n s = s\<lparr>console := c\<rparr>"
      using handleNotification_state by blast
    with dg show ?thesis by simp
  qed
  have res: "dangling i h e (handleResponse response s)"
    if "\<not> isRequest m" "isResponse m" "JsonRpcResponseSchema_parse m = Inr response"
    for response
  proof -
    from na that have "get_field m ''id'' \<noteq> JNum i" by simp
    with response_parse_id [OF that(3)] have "res_id response \<noteq> JNum i" by simp
    with dg show ?thesis by (rule dangling_handleResponse)
  qed
  show ?thesis
    using dg req ntf res by (simp add: processMessage_def split: sum.splits)
qed

lemma dangling_handleMessage:
  assumes dg: "dangling i h e s" and na: "\<not> answers i (Receive m)"
  shows "dangling i h e (snd (handleMessage m s))"
proof (cases "processMessage m s")
  case (Pair r s')
  with dangling_processMessage [OF dg na] have dg': "dangling i h e s'" by simp
  show ?thesis
  proof (cases r)
    case None
    with Pair dg' show ?thesis by (simp add: handleMessage_def)
  next
    case (Some err)
    obtain t where "snd (handleMessageError m err s') = s'\<lparr>transport := t\<rparr>"
      using handleMessageError_state by blast
    with Pair Some dg' show ?thesis by (simp add: handleMessage_def)
  qed
qed

lemma dangling_sendRequest:
  assumes dg: "dangling i h e s"
  shows "dangling i h e (snd (sendRequest M P s))"
proof -
  let ?j = "messageId s + 1"
  let ?s1 = "s\<lparr>messageId := ?j, futures := futures s @ [FPending],
                pendingRequests := (pendingRequests s)(JNum ?j \<mapsto> length (futures s))\<rparr>"
  from dg have dg1: "dangling i h e ?s1"
    by (auto simp: dangling_def nth_append)
  let ?request = "[(''jsonrpc'', JStr ''2.0''), (''id'', JNum ?j), (''method'', JStr M)]
                    @ (if P \<noteq> JUndefined then [(''params'', P)] else [])"
  obtain r t where st: "send ?request ?s1 = (r, ?s1\<lparr>transport := t\<rparr>)"
    using send_state [of ?request ?s1] by (metis prod.collapse)
  have dg2: "dangling i h e (?s1\<lparr>transport := t\<rparr>)" using dg1 by simp
  have ne: "length (futures s) \<noteq> h" using dg by (auto simp: dangling_def)
  have dg3: "dangling i h e (settle (length (futures s)) v (?s1\<lparr>transport := t\<rparr>))" for v
    using dg2 ne by (auto simp: dangling_def settle_def nth_append)
  show ?thesis
    using st dg2 dg3 by (cases r) (simp_all add: sendRequest_def Let_def)
qed

lemma dangling_sendNotification:
  assumes dg: "dangling i h e s"
  shows "dangling i h e (snd (sendNotification M P s))"
proof -
  obtain t where "snd (sendNotification M P s) = s\<lparr>transport := t\<rparr>"
    unfolding sendNotification_def using send_state by blast
  with dg show ?thesis by simp
qed

lemma dangling_step:
  assumes "dangling i h e s" and "\<not> answers i ev"
  shows "dangling i h e (step ev s)"
  using assms
  by (cases ev)
     (simp_all add: dangling_handleMessage dangling_sendRequest dangling_sendNotification
                    onRequest_def onNotification_def del: answers.simps)

lemma dangling_run:
  "dangling i h e s \<Longrightarrow> \<forall>ev\<in>set evs. \<not> answers i ev \<Longrightarrow> dangling i h e (run evs s)"
  by (induction evs arbitrary: s) (simp_all add: dangling_step)

lemma sendRequest_dangling:
  assumes "outcomes (transport s) = Some e # rest"
  shows "dangling (messageId s + 1) (fst (sendRequest M P s)) e (snd (sendRequest M P s))"
    and "sentMessages (transport (snd (sendRequest M P s))) = sentMessages (transport s)"
  using assms
  by (simp_all add: dangling_def sendRequest_def Let_def send_def transport_send_def settle_def
                    nth_append)

text \<open>
  C3 (as the code has it). When the transport's send of the Request envelope fails,
  the returned future is rejected with that transport error and nothing is sent; the
  pending entry created for the request's id is in the pending table when
  \<^verbatim>\<open>sendRequest\<close> returns, and it is still there, with the future still rejected,
  after every later sequence of events in which no inbound Response carries that id.
\<close>

theorem send_failure_rejects_and_keeps_entry:
  assumes fails: "outcomes (transport s) = Some e # rest"
    and others: "\<forall>ev\<in>set evs. \<not> answers (messageId s + 1) ev"
  shows "futures (snd (sendRequest M P s)) ! fst (sendRequest M P s) = FRejected e
       \<and> sentMessages (transport (snd (sendRequest M P s))) = sentMessages (transport s)
       \<and> pendingRequests (snd (sendRequest M P s)) (JNum (messageId s + 1))
           = Some (fst (sendRequest M P s))
       \<and> pendingRequests (run evs (snd (sendRequest M P s))) (JNum (messageId s + 1))
           = Some (fst (sendRequest M P s))
       \<and> futures (run evs (snd (sendRequest M P s))) ! fst (sendRequest M P s) = FRejected e"
proof -
  note d = sendRequest_dangling [OF fails, of M P]
  from dangling_run [OF d(1) others] d show ?thesis
    by (simp add: dangling_def)
qed

text \<open>
  A transport that is not connected, then another request, the Response to it and a
  notification.
\<close>

theorem send_failure_rejects_and_keeps_entry_witness:
  "pendingRequests
     (run [SendRequest ''other/method'' JUndefined,
           Receive [(''jsonrpc'', JStr ''2.0''), (''id'', JNum 2), (''result'', JStr ''ok'')],
           Receive [(''jsonrpc'', JStr ''2.0''), (''method'', JStr ''initialized'')]]
        (snd (sendRequest ''test/method'' JUndefined
           (new_McpProtocol
              \<lparr>sentMessages = [], outcomes = [Some (OtherError ''Transport is not connected'')]\<rparr>
              test_options))))
     (JNum 1) = Some 0
   \<and> futures
     (run [SendRequest ''other/method'' JUndefined,
           Receive [(''jsonrpc'', JStr ''2.0''), (''id'', JNum 2), (''result'', JStr ''ok'')],
           Receive [(''jsonrpc'', JStr ''2.0''), (''method'', JStr ''initialized'')]]
        (snd (sendRequest ''test/method'' JUndefined
           (new_McpProtocol
              \<lparr>sentMessages = [], outcomes = [Some (OtherError ''Transport is not connected'')]\<rparr>
              test_options)))) ! 0
     = FRejected (OtherError ''Transport is not connected'')"
proof -
  let ?s = "new_McpProtocol
          \<lparr>sentMessages = [], outcomes = [Some (OtherError ''Transport is not connected'')]\<rparr>
          test_options"
  let ?evs = "[SendRequest ''other/method'' JUndefined,
           Receive [(''jsonrpc'', JStr ''2.0''), (''id'', JNum 2), (''result'', JStr ''ok'')],
           Receive [(''jsonrpc'', JStr ''2.0''), (''method'', JStr ''initialized'')]]"
  have out: "outcomes (transport ?s) = Some (OtherError ''Transport is not connected'') # []"
    by (simp add: new_McpProtocol_def onRequest_def onNotification_def)
  have mid: "messageId ?s + 1 = 1"
    by (simp add: new_McpProtocol_def onRequest_def onNotification_def)
  have others: "\<forall>ev\<in>set ?evs. \<not> answers (messageId ?s + 1) ev"
    unfolding mid by (simp add: get_field_def isRequest_def isResponse_def has_key_def)
  have h: "fst (sendRequest ''test/method'' JUndefined ?s) = 0"
    by (simp add: run_defs)
  from send_failure_rejects_and_keeps_entry [OF out others, of "''test/method''" JUndefined]
  show ?thesis unfolding mid h by (simp del: run.simps)
qed

text \<open>
  C3 (as claimed) fails: after the failed send the pending table still has the entry
  of id 1, for the future that was rejected.
\<close>

theorem send_failure_leaves_pending_entry:
  "pendingRequests (snd (sendRequest ''test/method'' JUndefined
       (new_McpProtocol
          \<lparr>sentMessages = [], outcomes = [Some (OtherError ''Transport is not connected'')]\<rparr>
          test_options))) (JNum 1) = Some 0
   \<and> futures (snd (sendRequest ''test/method'' JUndefined
       (new_McpProtocol
          \<lparr>sentMessages = [], outcomes = [Some (OtherError ''Transport is not connected'')]\<rparr>
          test_options))) = [FRejected (OtherError ''Transport is not connected'')]"
  by (simp add: run_defs)

section \<open>Correlation of responses with requests\<close>

lemma response_parse_fields:
  assumes "JsonRpcResponseSchema_parse m = Inr response"
  shows "res_result response = get_field m ''result''"
    and "res_error response = parse_error_object (get_field m ''error'')"
    and "error_object_ok (get_field m ''error'')"
  using assms by (auto simp: JsonRpcResponseSchema_parse_def split: if_splits)

lemma tracked_response_settles:
  assumes tr: "tracks i h s"
    and cls: "\<not> isRequest m" "isResponse m"
    and valid: "JsonRpcResponseSchema_parse m = Inr response"
    and id: "get_field m ''id'' = JNum i"
  shows "handleMessage m s =
           (None, s\<lparr>pendingRequests := (pendingRequests s)(JNum i := None),
                     futures := (futures s)
                       [h := (case get_field m ''error'' of
                                JObj eo \<Rightarrow>
                                  FRejected (McpErr \<lparr>code = num_of (get_field eo ''code''),
                                                     message = str_of (get_field eo ''message''),
                                                     data = get_field eo ''data''\<rparr>)
                              | _ \<Rightarrow> FResolved (get_field m ''result''))]\<rparr>)"
proof -
  have rid: "res_id response = JNum i" using response_parse_id [OF valid] id by simp
  from tr have p: "pendingRequests s (JNum i) = Some h" "h < length (futures s)"
    "futures s ! h = FPending" by (auto simp: tracks_def)
  note f = response_parse_fields [OF valid]
  have "handleResponse response s =
          s\<lparr>pendingRequests := (pendingRequests s)(JNum i := None),
            futures := (futures s)
              [h := (case get_field m ''error'' of
                       JObj eo \<Rightarrow>
                         FRejected (McpErr \<lparr>code = num_of (get_field eo ''code''),
                                            message = str_of (get_field eo ''message''),
                                            data = get_field eo ''data''\<rparr>)
                     | _ \<Rightarrow> FResolved (get_field m ''result''))]\<rparr>"
    using rid p f
    by (cases "get_field m ''error''")
       (simp_all add: handleResponse_def Let_def settle_def parse_error_object_def
                      error_object_ok_def)
  then show ?thesis using cls valid
    by (simp add: handleMessage_def processMessage_def)
qed

text \<open>
  C1. Let \<^verbatim>\<open>sendRequest\<close> allocate the id \<open>i\<close> (the counter plus one) and return
  the future \<open>h\<close>, on a transport that accepts the Request. After any sequence of
  events in which no inbound Response carries the id \<open>i\<close> (other requests sent,
  Responses to them in any order, inbound requests and notifications, handler
  registrations), the future is still pending, and an inbound Response with id \<open>i\<close>
  that passes the Response schema settles exactly that future: it is resolved with the
  message's \<^verbatim>\<open>result\<close> value as it is when the message has no error object, and
  rejected with an McpError of the error object's code, message and data when it has
  one. Nothing else changes but the removal of the pending entry of \<open>i\<close>.
\<close>

theorem response_settles_its_request:
  assumes hv: "handles_valid s" and acc: "accepts_next (transport s)"
    and sent: "sendRequest M P s = (h, s1)"
    and others: "\<forall>ev\<in>set evs. \<not> answers (messageId s + 1) ev"
    and cls: "\<not> isRequest m" "isResponse m"
    and valid: "JsonRpcResponseSchema_parse m = Inr response"
    and id: "get_field m ''id'' = JNum (messageId s + 1)"
  shows "handleMessage m (run evs s1) =
           (None, (run evs s1)
              \<lparr>pendingRequests := (pendingRequests (run evs s1))(JNum (messageId s + 1) := None),
               futures := (futures (run evs s1))
                 [h := (case get_field m ''error'' of
                          JObj eo \<Rightarrow>
                            FRejected (McpErr \<lparr>code = num_of (get_field eo ''code''),
                                               message = str_of (get_field eo ''message''),
                                               data = get_field eo ''data''\<rparr>)
                        | _ \<Rightarrow> FResolved (get_field m ''result''))]\<rparr>)
       \<and> h < length (futures (run evs s1)) \<and> futures (run evs s1) ! h = FPending"
proof -
  have "tracks (messageId s + 1) h s1"
    using sendRequest_tracks [OF hv acc, of M P] sent by simp
  then have tr: "tracks (messageId s + 1) h (run evs s1)"
    using others by (rule tracks_run)
  from tracked_response_settles [OF tr cls valid id] tr show ?thesis
    by (simp add: tracks_def)
qed

text \<open>
  The hypothesis on the state holds of a new protocol object and is kept by every event.
\<close>

lemma handles_valid_new: "handles_valid (new_McpProtocol t opts)"
  by (simp add: handles_valid_def new_McpProtocol_def onRequest_def onNotification_def)

lemma handles_valid_transport [simp]: "handles_valid (s\<lparr>transport := t\<rparr>) = handles_valid s"
  by (simp add: handles_valid_def)

lemma handles_valid_console [simp]: "handles_valid (s\<lparr>console := c\<rparr>) = handles_valid s"
  by (simp add: handles_valid_def)

lemma handles_valid_handleResponse:
  "handles_valid s \<Longrightarrow> handles_valid (handleResponse response s)"
  by (auto simp: handles_valid_def handleResponse_def Let_def settle_def
           split: option.splits if_splits)

lemma handles_valid_handleMessage:
  assumes hv: "handles_valid s"
  shows "handles_valid (snd (handleMessage m s))"
proof -
  have pm: "handles_valid (snd (processMessage m s))"
  proof -
    have req: "handles_valid (snd (handleRequest request s))" for request
    proof -
      obtain t where "snd (handleRequest request s) = s\<lparr>transport := t\<rparr>"
        using handleRequest_state by blast
      with hv show ?thesis by simp
    qed
    have ntf: "handles_valid (handleNotification n s)" for n
    proof -
      obtain c where "handleNotification n s = s\<lparr>console := c\<rparr>"
        using handleNotification_state by blast
      with hv show ?thesis by simp
    qed
    show ?thesis
      using hv req ntf handles_valid_handleResponse [OF hv]
      by (simp add: processMessage_def split: sum.splits)
  qed
  show ?thesis
  proof (cases "processMessage m s")
    case (Pair r s')
    with pm have hv': "handles_valid s'" by simp
    show ?thesis
    proof (cases r)
      case None
      with Pair hv' show ?thesis by (simp add: handleMessage_def)
    next
      case (Some e)
      obtain t where "snd (handleMessageError m e s') = s'\<lparr>transport := t\<rparr>"
        using handleMessageError_state by blast
      with Pair Some hv' show ?thesis by (simp add: handleMessage_def)
    qed
  qed
qed

lemma handles_valid_sendRequest:
  "handles_valid s \<Longrightarrow> handles_valid (snd (sendRequest M P s))"
  by (auto simp: handles_valid_def sendRequest_def Let_def send_def transport_send_def
                 settle_def less_Suc_eq
           split: list.splits option.splits if_splits)

lemma handles_valid_step: "handles_valid s \<Longrightarrow> handles_valid (step ev s)"
proof (cases ev)
  case (SendNotification M P)
  assume hv: "handles_valid s"
  obtain t where "snd (sendNotification M P s) = s\<lparr>transport := t\<rparr>"
    unfolding sendNotification_def using send_state by blast
  with hv SendNotification show ?thesis by simp
qed (simp_all add: handles_valid_handleMessage handles_valid_sendRequest,
     simp_all add: handles_valid_def onRequest_def onNotification_def)

text \<open>Every state that a protocol object can reach satisfies the invariant.\<close>

lemma handles_valid_run: "handles_valid s \<Longrightarrow> handles_valid (run evs s)"
  by (induction evs arbitrary: s) (simp_all add: handles_valid_step)

lemma handles_valid_reachable: "handles_valid (run evs (new_McpProtocol t opts))"
  by (simp add: handles_valid_run handles_valid_new)

text \<open>
  Two requests are outstanding; the error Response to the second arrives before the
  success Response to the first.
\<close>

theorem response_settles_its_request_witness:
  "futures (snd (handleMessage
       [(''jsonrpc'', JStr ''2.0''), (''id'', JNum 1), (''result'', JObj [(''success'', JBool True)])]
       (run [SendRequest ''other/method'' JUndefined,
             Receive [(''jsonrpc'', JStr ''2.0''), (''id'', JNum 2),
                      (''error'', JObj [(''code'', JNum (-32601)), (''message'', JStr ''no''),
                                        (''data'', JNum 0)])]]
          (snd (sendRequest ''test/method'' (JObj [(''param'', JStr ''value'')]) test_protocol)))))
   = [FResolved (JObj [(''success'', JBool True)]),
      FRejected (McpErr \<lparr>code = -32601, message = ''no'', data = JNum 0\<rparr>)]"
proof -
  let ?m = "[(''jsonrpc'', JStr ''2.0''), (''id'', JNum 1), (''result'', JObj [(''success'', JBool True)])]"
  let ?evs = "[SendRequest ''other/method'' JUndefined,
             Receive [(''jsonrpc'', JStr ''2.0''), (''id'', JNum 2),
                      (''error'', JObj [(''code'', JNum (-32601)), (''message'', JStr ''no''),
                                        (''data'', JNum 0)])]]"
  let ?s1 = "snd (sendRequest ''test/method'' (JObj [(''param'', JStr ''value'')]) test_protocol)"
  have hv: "handles_valid test_protocol"
    unfolding test_protocol_def by (rule handles_valid_new)
  have acc: "accepts_next (transport test_protocol)" by (simp add: run_defs)
  have sent: "sendRequest ''test/method'' (JObj [(''param'', JStr ''value'')]) test_protocol = (0, ?s1)"
    by (simp add: run_defs)
  have mid: "messageId test_protocol + 1 = 1" by (simp add: run_defs)
  have others: "\<forall>ev\<in>set ?evs. \<not> answers (messageId test_protocol + 1) ev"
    unfolding mid by (simp add: get_field_def)
  have cls: "\<not> isRequest ?m" "isResponse ?m" by (simp_all add: run_defs)
  have valid: "JsonRpcResponseSchema_parse ?m
      = Inr \<lparr>res_id = JNum 1, res_result = JObj [(''success'', JBool True)], res_error = None\<rparr>"
    by (simp add: run_defs)
  have id: "get_field ?m ''id'' = JNum (messageId test_protocol + 1)"
    unfolding mid by (simp add: get_field_def)
  have f2: "futures (run ?evs ?s1)
      = [FPending, FRejected (McpErr \<lparr>code = -32601, message = ''no'', data = JNum 0\<rparr>)]"
    by (simp add: run_defs)
  from response_settles_its_request [OF hv acc sent others cls valid id]
  show ?thesis by (simp add: f2 get_field_def del: run.simps)
qed

section \<open>Messages that fail classification or validation\<close>

lemma sendErrorResponse_accepted:
  assumes "accepts_next (transport s)"
  shows "\<exists>t. sendErrorResponse i e s = (None, s\<lparr>transport := t\<rparr>)
           \<and> sentMessages t = sentMessages (transport s)
               @ [[(''jsonrpc'', JStr ''2.0''), (''id'', nullish i),
                   (''error'', JObj (toJsonRpcError e))]]"
  unfolding sendErrorResponse_def using send_accepted [OF assms] by blast

lemma toJsonRpcError_fields:
  "get_field (toJsonRpcError e) ''code'' = JNum (code e)"
  "get_field (toJsonRpcError e) ''message'' = JStr (message e)"
  "get_field (toJsonRpcError e) ''data'' = (if truthy (data e) then data e else JUndefined)"
  by (simp_all add: toJsonRpcError_def get_field_def)

text \<open>
  C4 (as the code has it). An inbound message classified as a Response that fails the
  Response schema is not fatal (no error leaves \<^verbatim>\<open>handleMessage\<close> when the
  transport accepts the send, and neither the pending table nor any future changes),
  but it is answered: exactly one error Response, with id null and the Parse-Error code
  -32700, is sent through the transport.
\<close>

theorem invalid_response_answered_with_parse_error:
  assumes cls: "\<not> isRequest m" "isResponse m"
    and invalid: "JsonRpcResponseSchema_parse m = Inl e"
    and acc: "accepts_next (transport s)"
  shows "fst (handleMessage m s) = None
       \<and> (\<exists>resp eo. sentMessages (transport (snd (handleMessage m s)))
                      = sentMessages (transport s) @ [resp]
                   \<and> get_field resp ''id'' = JNull
                   \<and> get_field resp ''error'' = JObj eo
                   \<and> get_field eo ''code'' = JNum (-32700)
                   \<and> get_field eo ''message'' = JStr ''Invalid JSON-RPC message'')
       \<and> pendingRequests (snd (handleMessage m s)) = pendingRequests s
       \<and> futures (snd (handleMessage m s)) = futures s"
proof -
  from invalid obtain z where z: "e = ZodError z"
    by (auto simp: JsonRpcResponseSchema_parse_def split: if_splits)
  let ?err = "ParseError ''Invalid JSON-RPC message'' (zod_object z)"
  obtain t where t: "sendErrorResponse JNull ?err s = (None, s\<lparr>transport := t\<rparr>)"
    "sentMessages t = sentMessages (transport s)
       @ [[(''jsonrpc'', JStr ''2.0''), (''id'', nullish JNull),
           (''error'', JObj (toJsonRpcError ?err))]]"
    using sendErrorResponse_accepted [OF acc] by blast
  have "handleMessage m s = (None, s\<lparr>transport := t\<rparr>)"
    using cls invalid z t(1)
    by (simp add: handleMessage_def processMessage_def handleMessageError_def)
  then show ?thesis using t(2)
    by (simp add: get_field_def toJsonRpcError_def ParseError_def)
qed

text \<open>
  A Response with the wrong protocol-version marker.
\<close>

theorem invalid_response_answered_with_parse_error_witness:
  "\<exists>resp eo. sentMessages (transport (snd (handleMessage
                  [(''jsonrpc'', JStr ''1.0''), (''id'', JNum 1), (''result'', JNum 5)]
                  test_protocol))) = [resp]
           \<and> get_field resp ''id'' = JNull
           \<and> get_field resp ''error'' = JObj eo
           \<and> get_field eo ''code'' = JNum (-32700)
           \<and> get_field eo ''message'' = JStr ''Invalid JSON-RPC message''"
proof -
  let ?m = "[(''jsonrpc'', JStr ''1.0''), (''id'', JNum 1), (''result'', JNum 5)]"
  have cls: "\<not> isRequest ?m" "isResponse ?m"
    by (simp_all add: isRequest_def isResponse_def has_key_def)
  have invalid: "JsonRpcResponseSchema_parse ?m = Inl (ZodError ''invalid JSON-RPC response'')"
    by (simp add: JsonRpcResponseSchema_parse_def get_field_def)
  have acc: "accepts_next (transport test_protocol)" by (simp add: run_defs)
  have sent0: "sentMessages (transport test_protocol) = []" by (simp add: run_defs)
  from invalid_response_answered_with_parse_error [OF cls invalid acc]
  show ?thesis by (simp add: sent0)
qed

text \<open>
  C4 (as claimed) fails: a Response whose error object lacks its message is classified
  as a Response, fails the schema, and an error Response is sent back.
\<close>

theorem invalid_response_is_answered:
  "\<not> isRequest [(''jsonrpc'', JStr ''2.0''), (''id'', JNum 1),
                  (''error'', JObj [(''code'', JNum (-1))])]
   \<and> isResponse [(''jsonrpc'', JStr ''2.0''), (''id'', JNum 1),
                  (''error'', JObj [(''code'', JNum (-1))])]
   \<and> JsonRpcResponseSchema_parse [(''jsonrpc'', JStr ''2.0''), (''id'', JNum 1),
                  (''error'', JObj [(''code'', JNum (-1))])]
       = Inl (ZodError ''invalid JSON-RPC response'')
   \<and> sentMessages (transport (snd (handleMessage
        [(''jsonrpc'', JStr ''2.0''), (''id'', JNum 1), (''error'', JObj [(''code'', JNum (-1))])]
        test_protocol)))
     = [[(''jsonrpc'', JStr ''2.0''), (''id'', JNull),
         (''error'', JObj [(''code'', JNum (-32700)),
                           (''message'', JStr ''Invalid JSON-RPC message''),
                           (''data'', zod_object ''invalid JSON-RPC response'')])]]"
  by (simp add: run_defs ParseError_def zod_object_def)

text \<open>
  C5 (as the code has it). On a transport that accepts the send: an inbound message that
  fails schema validation is answered with one Parse-Error Response (-32700) whose id is
  null, whatever id the message carries; an inbound message that matches no shape is
  answered with one Invalid-Request Response (-32600) whose id is the message's
  \<^verbatim>\<open>id\<close> field when it has one (null for an \<^verbatim>\<open>undefined\<close> one), and null
  otherwise.
\<close>

theorem error_response_addressing:
  assumes acc: "accepts_next (transport s)"
  shows "(validation_fails m \<longrightarrow>
            fst (handleMessage m s) = None
          \<and> (\<exists>resp eo. sentMessages (transport (snd (handleMessage m s)))
                         = sentMessages (transport s) @ [resp]
                      \<and> get_field resp ''id'' = JNull
                      \<and> get_field resp ''error'' = JObj eo
                      \<and> get_field eo ''code'' = JNum (-32700)))
       \<and> (unclassified m \<longrightarrow>
            fst (handleMessage m s) = None
          \<and> (\<exists>resp eo. sentMessages (transport (snd (handleMessage m s)))
                         = sentMessages (transport s) @ [resp]
                      \<and> get_field resp ''id''
                          = (if has_key ''id'' m then nullish (get_field m ''id'') else JNull)
                      \<and> get_field resp ''error'' = JObj eo
                      \<and> get_field eo ''code'' = JNum (-32600)))"
proof (rule conjI; rule impI)
  assume vf: "validation_fails m"
  then obtain z where pm: "processMessage m s = (Some (ZodError z), s)"
    by (auto simp: validation_fails_def processMessage_def JsonRpcRequestSchema_parse_def
                   JsonRpcResponseSchema_parse_def JsonRpcNotificationSchema_parse_def
             split: if_splits)
  let ?err = "ParseError ''Invalid JSON-RPC message'' (zod_object z)"
  obtain t where t: "sendErrorResponse JNull ?err s = (None, s\<lparr>transport := t\<rparr>)"
    "sentMessages t = sentMessages (transport s)
       @ [[(''jsonrpc'', JStr ''2.0''), (''id'', nullish JNull),
           (''error'', JObj (toJsonRpcError ?err))]]"
    using sendErrorResponse_accepted [OF acc] by blast
  have hm: "handleMessage m s = (None, s\<lparr>transport := t\<rparr>)"
    using pm t(1) by (simp add: handleMessage_def handleMessageError_def)
  show "fst (handleMessage m s) = None
          \<and> (\<exists>resp eo. sentMessages (transport (snd (handleMessage m s)))
                         = sentMessages (transport s) @ [resp]
                      \<and> get_field resp ''id'' = JNull
                      \<and> get_field resp ''error'' = JObj eo
                      \<and> get_field eo ''code'' = JNum (-32700))"
    using hm t(2) by (simp add: get_field_def toJsonRpcError_def ParseError_def)
next
  assume uc: "unclassified m"
  let ?err = "InvalidRequestError ''Invalid message format'' JUndefined"
  have pm: "processMessage m s = (Some (McpErr ?err), s)"
    using uc by (simp add: unclassified_def processMessage_def)
  obtain t where t: "sendErrorResponse (message_id_or_null m) ?err s = (None, s\<lparr>transport := t\<rparr>)"
    "sentMessages t = sentMessages (transport s)
       @ [[(''jsonrpc'', JStr ''2.0''), (''id'', nullish (message_id_or_null m)),
           (''error'', JObj (toJsonRpcError ?err))]]"
    using sendErrorResponse_accepted [OF acc] by blast
  have hm: "handleMessage m s = (None, s\<lparr>transport := t\<rparr>)"
    using pm t(1) by (simp add: handleMessage_def handleMessageError_def)
  show "fst (handleMessage m s) = None
          \<and> (\<exists>resp eo. sentMessages (transport (snd (handleMessage m s)))
                         = sentMessages (transport s) @ [resp]
                      \<and> get_field resp ''id''
                          = (if has_key ''id'' m then nullish (get_field m ''id'') else JNull)
                      \<and> get_field resp ''error'' = JObj eo
                      \<and> get_field eo ''code'' = JNum (-32600))"
    using hm t(2)
    by (simp add: get_field_def toJsonRpcError_def InvalidRequestError_def message_id_or_null_def)
qed

text \<open>
  A request whose method is not a string, and a message with nothing but an id.
\<close>

theorem error_response_addressing_witness:
  "(\<exists>resp eo. sentMessages (transport (snd (handleMessage
                  [(''jsonrpc'', JStr ''2.0''), (''id'', JNum 7), (''method'', JNum 42)]
                  test_protocol))) = [resp]
            \<and> get_field resp ''id'' = JNull
            \<and> get_field resp ''error'' = JObj eo
            \<and> get_field eo ''code'' = JNum (-32700))
   \<and> (\<exists>resp eo. sentMessages (transport (snd (handleMessage
                  [(''jsonrpc'', JStr ''2.0''), (''id'', JNum 7)] test_protocol))) = [resp]
            \<and> get_field resp ''id'' = JNum 7
            \<and> get_field resp ''error'' = JObj eo
            \<and> get_field eo ''code'' = JNum (-32600))"
proof -
  let ?m1 = "[(''jsonrpc'', JStr ''2.0''), (''id'', JNum 7), (''method'', JNum 42)]"
  let ?m2 = "[(''jsonrpc'', JStr ''2.0''), (''id'', JNum 7)]"
  have acc: "accepts_next (transport test_protocol)" by (simp add: run_defs)
  have sent0: "sentMessages (transport test_protocol) = []" by (simp add: run_defs)
  have vf: "validation_fails ?m1"
    by (simp add: validation_fails_def isRequest_def has_key_def JsonRpcRequestSchema_parse_def
                  get_field_def)
  have uc: "unclassified ?m2"
    by (simp add: unclassified_def isRequest_def isResponse_def isNotification_def has_key_def)
  have id2: "has_key ''id'' ?m2" "nullish (get_field ?m2 ''id'') = JNum 7"
    by (simp_all add: has_key_def get_field_def)
  from error_response_addressing [OF acc, of ?m1] vf
  have a: "\<exists>resp eo. sentMessages (transport (snd (handleMessage ?m1 test_protocol))) = [resp]
            \<and> get_field resp ''id'' = JNull
            \<and> get_field resp ''error'' = JObj eo
            \<and> get_field eo ''code'' = JNum (-32700)"
    by (simp add: sent0)
  from error_response_addressing [OF acc, of ?m2] uc
  have b: "\<exists>resp eo. sentMessages (transport (snd (handleMessage ?m2 test_protocol))) = [resp]
            \<and> get_field resp ''id'' = JNum 7
            \<and> get_field resp ''error'' = JObj eo
            \<and> get_field eo ''code'' = JNum (-32600)"
    using id2 by (simp add: sent0)
  from a b show ?thesis by blast
qed

text \<open>
  C5 (as claimed) fails: the message carries the id 7, its method is not a string, and
  the error Response is addressed to null.
\<close>

theorem invalid_request_answered_with_null_id:
  "isRequest [(''jsonrpc'', JStr ''2.0''), (''id'', JNum 7), (''method'', JNum 42)]
   \<and> get_field [(''jsonrpc'', JStr ''2.0''), (''id'', JNum 7), (''method'', JNum 42)] ''id'' = JNum 7
   \<and> sentMessages (transport (snd (handleMessage
        [(''jsonrpc'', JStr ''2.0''), (''id'', JNum 7), (''method'', JNum 42)] test_protocol)))
     = [[(''jsonrpc'', JStr ''2.0''), (''id'', JNull),
         (''error'', JObj [(''code'', JNum (-32700)),
                           (''message'', JStr ''Invalid JSON-RPC message''),
                           (''data'', zod_object ''invalid JSON-RPC request'')])]]"
  by (simp add: run_defs ParseError_def zod_object_def)

section \<open>Handler failures\<close>

text \<open>
  What the error Response of a failing handler carries: the thrown McpError as it is,
  or an Internal error with the description of the failure as data, each passed through
  \<^verbatim>\<open>toJsonRpcError\<close>, which keeps \<^verbatim>\<open>data\<close> only when it is truthy.
\<close>

lemma handler_failure_response:
  assumes parse: "JsonRpcRequestSchema_parse m = Inr request"
    and handler: "requestHandlers s (req_method request) = Some handler"
    and acc: "accepts_next (transport s)"
    and fails: "handler (req_params request) (req_id request) = Throws e"
  shows "sentMessages (transport (snd (handleMessage m s)))
           = sentMessages (transport s)
             @ [[(''jsonrpc'', JStr ''2.0''), (''id'', get_field m ''id''),
                 (''error'', JObj (toJsonRpcError
                    (case e of
                       McpErr x \<Rightarrow> x
                     | _ \<Rightarrow> \<lparr>code = -32603, message = ''Internal error'',
                             data = JStr (describe e)\<rparr>)))]]"
proof -
  note flds = request_parse_fields [OF parse]
  define err where "err = (case e of McpErr x \<Rightarrow> x
      | _ \<Rightarrow> \<lparr>code = -32603, message = ''Internal error'', data = JStr (describe e)\<rparr>)"
  obtain t where t: "sendErrorResponse (req_id request) err s = (None, s\<lparr>transport := t\<rparr>)"
    "sentMessages t = sentMessages (transport s)
       @ [[(''jsonrpc'', JStr ''2.0''), (''id'', nullish (req_id request)),
           (''error'', JObj (toJsonRpcError err))]]"
    using sendErrorResponse_accepted [OF acc] by blast
  have "handleRequest request s = (None, s\<lparr>transport := t\<rparr>)"
    using handler fails t(1) by (cases e) (simp_all add: handleRequest_def err_def)
  then have "handleMessage m s = (None, s\<lparr>transport := t\<rparr>)"
    using flds(1) parse by (simp add: handleMessage_def processMessage_def)
  then show ?thesis using t(2) flds(3) by (simp add: err_def)
qed

text \<open>
  C7 at a failing input. The handler throws an McpError with code -32602, message
  "Invalid count" and data 0. The claim has the error Response carry code, message and
  data untouched; the error Response sent has the code and the message and no
  \<^verbatim>\<open>data\<close> field.
\<close>

theorem falsy_error_data_dropped:
  "sentMessages (transport (snd (handleMessage
      [(''jsonrpc'', JStr ''2.0''), (''id'', JNum 1), (''method'', JStr ''custom/method'')]
      (onRequest ''custom/method''
         (\<lambda>params i. Throws (McpErr \<lparr>code = -32602, message = ''Invalid count'', data = JNum 0\<rparr>))
         test_protocol))))
   = [[(''jsonrpc'', JStr ''2.0''), (''id'', JNum 1),
       (''error'', JObj [(''code'', JNum (-32602)), (''message'', JStr ''Invalid count'')])]]"
  by (simp add: run_defs)

section \<open>Unconfigured logging and sampling\<close>

text \<open>
  C10 (as the code has it). A \<^verbatim>\<open>logging/setLevel\<close> request received when no logging
  provider is configured, and a \<^verbatim>\<open>sampling/createMessage\<close> request received when no
  sampling provider is configured, fail with the InvalidParams error, code -32602 (messages
  "Logging not supported" and "Sampling not supported"), whatever the params.
\<close>

theorem unconfigured_provider_invalid_params:
  "handleSetLogLevel None params =
     Throws (McpErr \<lparr>code = -32602, message = ''Logging not supported'', data = JUndefined\<rparr>)
   \<and> handleCreateMessage None params =
     Throws (McpErr \<lparr>code = -32602, message = ''Sampling not supported'', data = JUndefined\<rparr>)"
  by (simp add: handleSetLogLevel_def handleCreateMessage_def InvalidParamsError_def)

text \<open>
  C10 (as claimed) fails: with no logging provider the handler of \<^verbatim>\<open>logging/setLevel\<close>
  throws an error whose code is -32602, not the CapabilityNotSupported code -32004.
\<close>

theorem unconfigured_logging_not_32004:
  "thrown_code (handleSetLogLevel None (JObj [(''level'', JStr ''debug'')])) = Some (-32602)
   \<and> thrown_code (handleSetLogLevel None (JObj [(''level'', JStr ''debug'')])) \<noteq> Some (-32004)"
  by (simp add: handleSetLogLevel_def InvalidParamsError_def thrown_code_def)

end
